theory Spec2Isabelle
  imports Main
begin

section \<open>JavaScript numbers as they occur in postcss.js\<close>

text \<open>
  Every number the plugin handles is a double that is NaN, an infinity, or an
  integer: widths are read from digit strings, and the only arithmetic is subtraction
  and addition of such values. \<open>Fin n\<close> is the finite double of integer value \<open>n\<close>;
  the two zeros of IEEE arithmetic are both \<open>Fin 0\<close> (no operation of the file tells
  them apart: \<open>-0 == 0\<close>, \<open>-0 >= 0\<close>, \<open>-0 > 0\<close> is false).
\<close>

datatype jsnum = NaN | NegInf | Fin int | PosInf

function bit_len :: "int \<Rightarrow> nat" where
  "bit_len n = (if n \<le> 0 then 0 else Suc (bit_len (n div 2)))"
  by pat_completeness auto
termination
  by (relation "measure nat") auto

declare bit_len.simps [simp del]

text \<open>
  Rounding of an exact integer result to the nearest double: 53 significant bits, ties
  to even, overflow to an infinity. Integers up to \<open>2 ^ 53\<close> in magnitude are exact.
\<close>

definition exact_limit :: int where
  "exact_limit = 2 ^ 53"

definition overflow_limit :: int where
  "overflow_limit = 2 ^ 1024"

definition round_magnitude :: "int \<Rightarrow> int" where
  "round_magnitude a =
     (let sh = bit_len a - 53;
          q = a div 2 ^ sh;
          r = a mod 2 ^ sh;
          half = 2 ^ (sh - 1);
          q' = (if half < r \<or> (r = half \<and> odd q) then q + 1 else q)
      in q' * 2 ^ sh)"

definition js_round :: "int \<Rightarrow> jsnum" where
  "js_round n =
     (if \<bar>n\<bar> \<le> exact_limit then Fin n
      else
        let v = round_magnitude \<bar>n\<bar>
        in if overflow_limit \<le> v then (if n < 0 then NegInf else PosInf)
           else Fin (if n < 0 then - v else v))"

text \<open>The relational operators: every comparison with NaN is false.\<close>

fun js_lt :: "jsnum \<Rightarrow> jsnum \<Rightarrow> bool" where
  "js_lt NaN _ = False"
| "js_lt _ NaN = False"
| "js_lt NegInf NegInf = False"
| "js_lt NegInf _ = True"
| "js_lt (Fin a) NegInf = False"
| "js_lt (Fin a) (Fin b) = (a < b)"
| "js_lt (Fin a) PosInf = True"
| "js_lt PosInf _ = False"

definition js_gt :: "jsnum \<Rightarrow> jsnum \<Rightarrow> bool" where
  "js_gt a b = js_lt b a"

definition js_le :: "jsnum \<Rightarrow> jsnum \<Rightarrow> bool" where
  "js_le a b = (a \<noteq> NaN \<and> b \<noteq> NaN \<and> \<not> js_lt b a)"

definition js_ge :: "jsnum \<Rightarrow> jsnum \<Rightarrow> bool" where
  "js_ge a b = js_le b a"

text \<open>Loose equality \<open>==\<close> of two numbers: NaN equals nothing, itself included.\<close>

definition js_eq :: "jsnum \<Rightarrow> jsnum \<Rightarrow> bool" where
  "js_eq a b = (a \<noteq> NaN \<and> a = b)"

fun js_neg :: "jsnum \<Rightarrow> jsnum" where
  "js_neg NaN = NaN"
| "js_neg NegInf = PosInf"
| "js_neg (Fin a) = Fin (- a)"
| "js_neg PosInf = NegInf"

fun js_add :: "jsnum \<Rightarrow> jsnum \<Rightarrow> jsnum" where
  "js_add NaN _ = NaN"
| "js_add _ NaN = NaN"
| "js_add NegInf PosInf = NaN"
| "js_add PosInf NegInf = NaN"
| "js_add NegInf _ = NegInf"
| "js_add PosInf _ = PosInf"
| "js_add (Fin a) NegInf = NegInf"
| "js_add (Fin a) PosInf = PosInf"
| "js_add (Fin a) (Fin b) = js_round (a + b)"

definition js_sub :: "jsnum \<Rightarrow> jsnum \<Rightarrow> jsnum" where
  "js_sub a b = js_add a (js_neg b)"

section \<open>Values: bounds objects, null, arrays\<close>

text \<open>
  A bounds object is \<open>{ minWidth, maxWidth }\<close>. The file also passes \<open>null\<close> (the
  empty bounds made by \<open>nullBounds\<close> and \<open>subtractBounds\<close>), arrays of such values
  (the remainder of the reduction) and, for a key missing from a table, \<open>undefined\<close>.
\<close>

record bounds =
  minWidth :: jsnum
  maxWidth :: jsnum

datatype jsval = Undefined | Null | Obj bounds | Arr "jsval list"

datatype error = TypeError

text \<open>What \<open>getQueryBounds\<close> returns for a query without any width.\<close>

definition Untracked :: jsval where
  "Untracked = Obj \<lparr>minWidth = NaN, maxWidth = NaN\<rparr>"

text \<open>
  The parameter pattern \<open>{ minWidth, maxWidth }\<close>: destructuring \<open>null\<close> or
  \<open>undefined\<close> throws a TypeError. An array has neither property, so both names are
  bound to \<open>undefined\<close>, which the comparisons and the subtraction that follow convert
  to NaN.
\<close>

fun destructure :: "jsval \<Rightarrow> error + (jsnum \<times> jsnum)" where
  "destructure Undefined = Inl TypeError"
| "destructure Null = Inl TypeError"
| "destructure (Obj b) = Inr (minWidth b, maxWidth b)"
| "destructure (Arr xs) = Inr (NaN, NaN)"

section \<open>The interval algebra of postcss.js\<close>

definition nullBounds :: "bounds \<Rightarrow> jsval" where
  "nullBounds b = (if js_eq (minWidth b) (maxWidth b) then Null else Obj b)"

definition boundsIncluded :: "jsval \<Rightarrow> jsval \<Rightarrow> error + bool" where
  "boundsIncluded boundsA boundsB =
     (case destructure boundsA of
        Inl e \<Rightarrow> Inl e
      | Inr (mn, mx) \<Rightarrow>
          (case destructure boundsB of
             Inl e \<Rightarrow> Inl e
           | Inr (boundsMinWidth, boundsMaxWidth) \<Rightarrow>
               Inr (js_ge mn boundsMinWidth \<and> js_le mx boundsMaxWidth)))"

definition boundsIntersects :: "jsval \<Rightarrow> jsval \<Rightarrow> error + bool" where
  "boundsIntersects boundsA boundsB =
     (case destructure boundsA of
        Inl e \<Rightarrow> Inl e
      | Inr (minWidthA, maxWidthA) \<Rightarrow>
          (case destructure boundsB of
             Inl e \<Rightarrow> Inl e
           | Inr (minWidthB, maxWidthB) \<Rightarrow>
               Inr (if js_le minWidthA minWidthB then js_gt maxWidthA minWidthB
                    else js_lt minWidthA maxWidthB)))"

text \<open>
  \<open>Array.prototype.flatMap\<close>: the callback's results are concatenated, a result that
  is an array being spread one level. An exception of the callback ends the call.
\<close>

fun spread :: "jsval \<Rightarrow> jsval list" where
  "spread (Arr ys) = ys"
| "spread v = [v]"

fun flatMap :: "('a \<Rightarrow> error + jsval) \<Rightarrow> 'a list \<Rightarrow> error + jsval list" where
  "flatMap f [] = Inr []"
| "flatMap f (x # xs) =
     (case f x of
        Inl e \<Rightarrow> Inl e
      | Inr v \<Rightarrow> (case flatMap f xs of Inl e \<Rightarrow> Inl e | Inr vs \<Rightarrow> Inr (spread v @ vs)))"

lemma flatMap_cong [fundef_cong]:
  "xs = ys \<Longrightarrow> (\<And>x. x \<in> set ys \<Longrightarrow> f x = g x) \<Longrightarrow> flatMap f xs = flatMap g ys"
  by (induction ys arbitrary: xs) (auto split: sum.splits)

text \<open>
  Property reads \<open>boundsA.minWidth\<close> and \<open>boundsA.maxWidth\<close>. In \<open>subtractBounds\<close>
  they are reached only after a test on both operands has succeeded, which needs two
  objects; the other cases are given the NaN that such a read would compare as.
\<close>

fun get_minWidth :: "jsval \<Rightarrow> jsnum" where
  "get_minWidth (Obj b) = minWidth b"
| "get_minWidth _ = NaN"

fun get_maxWidth :: "jsval \<Rightarrow> jsnum" where
  "get_maxWidth (Obj b) = maxWidth b"
| "get_maxWidth _ = NaN"

fun subtractBounds :: "jsval \<Rightarrow> jsval \<Rightarrow> error + jsval" where
  "subtractBounds (Arr xs) boundsB =
     (case flatMap (\<lambda>b. subtractBounds b boundsB) xs of
        Inl e \<Rightarrow> Inl e
      | Inr ys \<Rightarrow> Inr (Arr ys))"
| "subtractBounds Null boundsB = Inr Null"
| "subtractBounds boundsA Null = Inr boundsA"
| "subtractBounds boundsA boundsB =
     (case boundsIncluded boundsA boundsB of
        Inl e \<Rightarrow> Inl e
      | Inr includedAB \<Rightarrow>
          if includedAB then Inr Null
          else
            (case boundsIncluded boundsB boundsA of
               Inl e \<Rightarrow> Inl e
             | Inr includedBA \<Rightarrow>
                 if includedBA then
                   Inr (Arr (map nullBounds
                     [\<lparr>minWidth = get_minWidth boundsA, maxWidth = get_minWidth boundsB\<rparr>,
                      \<lparr>minWidth = get_maxWidth boundsB, maxWidth = get_maxWidth boundsA\<rparr>]))
                 else
                   (case boundsIntersects boundsA boundsB of
                      Inl e \<Rightarrow> Inl e
                    | Inr intersects \<Rightarrow>
                        if intersects then
                          (if js_lt (get_minWidth boundsA) (get_minWidth boundsB)
                           then Inr (Obj \<lparr>minWidth = get_minWidth boundsA,
                                          maxWidth = get_minWidth boundsB\<rparr>)
                           else Inr (Obj \<lparr>minWidth = get_maxWidth boundsB,
                                          maxWidth = get_maxWidth boundsA\<rparr>))
                        else Inr boundsA)))"

definition getBoundsSize :: "jsval \<Rightarrow> error + jsnum" where
  "getBoundsSize b =
     (case destructure b of
        Inl e \<Rightarrow> Inl e
      | Inr (mn, mx) \<Rightarrow>
          (let x = js_sub mx mn
           in Inr (if js_gt x (Fin 1) then js_sub x (Fin 1) else Fin 0)))"

section \<open>Reading the widths of a media query\<close>

text \<open>
  \<open>minWidthRegExp\<close> and \<open>maxWidthRegExp\<close> are a keyword, an optional sign, one
  or more decimal digits and \<open>px\<close>. \<open>exec\<close> returns the leftmost match; at a given
  position the match is unique (the sign and every digit are taken, since what follows
  the digits must be \<open>p\<close>). The result is capture group 1, or \<open>None\<close> for \<open>null\<close>.
\<close>

definition is_digit :: "char \<Rightarrow> bool" where
  "is_digit c = (c \<in> set ''0123456789'')"

definition match_here :: "string \<Rightarrow> string \<Rightarrow> string option" where
  "match_here kw s =
     (if take (length kw) s = kw then
        let rest = drop (length kw) s;
            sgn = (case rest of
                     [] \<Rightarrow> []
                   | c # cs \<Rightarrow> if c = CHR ''+'' \<or> c = CHR ''-'' then [c] else []);
            rest' = drop (length sgn) rest;
            ds = takeWhile is_digit rest';
            after = dropWhile is_digit rest'
        in if ds \<noteq> [] \<and> take 2 after = ''px'' then Some (sgn @ ds) else None
      else None)"

fun regexp_exec :: "string \<Rightarrow> string \<Rightarrow> string option" where
  "regexp_exec kw [] = match_here kw []"
| "regexp_exec kw (c # cs) =
     (case match_here kw (c # cs) of
        Some g \<Rightarrow> Some g
      | None \<Rightarrow> regexp_exec kw cs)"

definition minWidthRegExp :: "string \<Rightarrow> string option" where
  "minWidthRegExp = regexp_exec ''min-width:''"

definition maxWidthRegExp :: "string \<Rightarrow> string option" where
  "maxWidthRegExp = regexp_exec ''max-width:''"

text \<open>
  \<open>+(m?.[1] ?? undefined)\<close>: without a match the operand is \<open>undefined\<close> and the
  result NaN; with one, the signed digit string is converted to the nearest double.
\<close>

definition digit_val :: "char \<Rightarrow> int" where
  "digit_val c = of_char c - 48"

definition decimal :: "string \<Rightarrow> int" where
  "decimal ds = foldl (\<lambda>acc c. 10 * acc + digit_val c) 0 ds"

fun toNumber :: "string option \<Rightarrow> jsnum" where
  "toNumber None = NaN"
| "toNumber (Some g) =
     (case g of
        [] \<Rightarrow> Fin 0
      | c # cs \<Rightarrow>
          if c = CHR ''-'' then js_round (- decimal cs)
          else if c = CHR ''+'' then js_round (decimal cs)
          else js_round (decimal g))"

text \<open>
  \<open>normalize\<close> comes from \<open>./utils/normalize\<close>, which is not part of this file;
  it is the parameter \<open>norm\<close> of every function that calls it.
\<close>

definition getQueryBounds :: "(string \<Rightarrow> string) \<Rightarrow> string \<Rightarrow> jsval" where
  "getQueryBounds norm query =
     (let nquery = norm query;
          mn = toNumber (minWidthRegExp nquery);
          mx = toNumber (maxWidthRegExp nquery)
      in if js_gt mn (Fin 0) \<or> js_gt mx (Fin 0)
         then Obj \<lparr>minWidth = (if js_ge mn (Fin 0) then mn else NegInf),
                   maxWidth = (if js_ge mx (Fin 0) then mx else PosInf)\<rparr>
         else Obj \<lparr>minWidth = mn, maxWidth = mx\<rparr>)"

section \<open>The plugin\<close>

text \<open>
  A JavaScript object used as a table is the list of its own string-keyed properties
  in the order of \<open>Object.keys\<close>, each key once. \<open>options.queries\<close> maps a query
  string to the name of its media file; a group of \<open>options.groups\<close> is a RegExp
  (here the predicate \<open>name.match(group)\<close> is truthy), an array of names, or
  anything else, which \<open>getGroupName\<close> skips.
\<close>

datatype group = RegExp "string \<Rightarrow> bool" | Array "string list" | Other

record options =
  queries :: "(string \<times> string) list"
  groups :: "(string \<times> group) list"
  basename :: string
  path :: string

text \<open>
  A media at-rule: its \<open>params\<close> and the text that
  \<open>postcss.root().append(atRule).toString()\<close> renders for it.
\<close>

record atRule =
  params :: string
  css :: string

text \<open>
  What a run of the callback does to the outside. \<open>AddMedia\<close> is one run of
  \<open>addToStore\<close>: the rule is appended to a fresh root, that root is rendered, and
  the text goes to \<open>store.addMedia\<close> with the name, the path and the params.
  \<open>Subtract\<close> records, between these runs, each subtraction of a query's bounds from
  the remainder.
\<close>

datatype event =
  AddMedia string string string string
| Subtract string

text \<open>
  \<open>queriesBounds\<close>: the object filled by the \<open>reduce\<close> over the keys of
  \<open>options.queries\<close>. Reading a key it does not have gives \<open>undefined\<close>.
\<close>

definition queriesBounds :: "(string \<Rightarrow> string) \<Rightarrow> options \<Rightarrow> (string \<rightharpoonup> jsval)" where
  "queriesBounds norm opts =
     foldl (\<lambda>bounds query. bounds(query \<mapsto> getQueryBounds norm query))
       Map.empty (map fst (queries opts))"

definition lookupBounds :: "(string \<rightharpoonup> jsval) \<Rightarrow> string \<Rightarrow> jsval" where
  "lookupBounds tbl q = (case tbl q of None \<Rightarrow> Undefined | Some v \<Rightarrow> v)"

fun findGroup :: "string \<Rightarrow> (string \<times> group) list \<Rightarrow> string option" where
  "findGroup name [] = None"
| "findGroup name ((groupName, g) # rest) =
     (case g of
        RegExp matches \<Rightarrow> if matches name then Some groupName else findGroup name rest
      | Array members \<Rightarrow> if name \<in> set members then Some groupName else findGroup name rest
      | Other \<Rightarrow> findGroup name rest)"

definition getGroupName :: "options \<Rightarrow> string \<Rightarrow> string option" where
  "getGroupName opts name = findGroup name (groups opts)"

text \<open>\<open>Array.prototype.filter\<close> with a predicate that may throw.\<close>

fun filterE :: "('a \<Rightarrow> error + bool) \<Rightarrow> 'a list \<Rightarrow> error + 'a list" where
  "filterE p [] = Inr []"
| "filterE p (x # xs) =
     (case p x of
        Inl e \<Rightarrow> Inl e
      | Inr keep \<Rightarrow>
          (case filterE p xs of
             Inl e \<Rightarrow> Inl e
           | Inr ys \<Rightarrow> Inr (if keep then x # ys else ys)))"

definition getQueryNamesByBounds ::
  "(string \<Rightarrow> string) \<Rightarrow> options \<Rightarrow> jsval \<Rightarrow> error + (string \<times> string) list" where
  "getQueryNamesByBounds norm opts queryBounds =
     (case filterE (\<lambda>(q, name).
               boundsIntersects queryBounds (lookupBounds (queriesBounds norm opts) q))
             (queries opts) of
        Inl e \<Rightarrow> Inl e
      | Inr qs \<Rightarrow> Inr (map (\<lambda>(q, name). (name, q)) qs))"

definition getQueryNamesByDefinition ::
  "(string \<Rightarrow> string) \<Rightarrow> options \<Rightarrow> string \<Rightarrow> (string \<times> string) list" where
  "getQueryNamesByDefinition norm opts query =
     map (\<lambda>(q, name). (name, q))
       (filter (\<lambda>(q, name). norm q = norm query) (queries opts))"

definition queryNames ::
  "(string \<Rightarrow> string) \<Rightarrow> options \<Rightarrow> atRule \<Rightarrow> error + (string \<times> string) list" where
  "queryNames norm opts rule =
     (case getQueryNamesByBounds norm opts (getQueryBounds norm (params rule)) of
        Inl e \<Rightarrow> Inl e
      | Inr byBounds \<Rightarrow>
          Inr (byBounds @ getQueryNamesByDefinition norm opts (params rule)))"

text \<open>
  The name of the media file: the group of \<open>options.basename\<close> when there is one and
  it is truthy (a non-empty string), the basename otherwise.
\<close>

definition mediaName :: "options \<Rightarrow> string \<Rightarrow> string" where
  "mediaName opts queryName =
     (case getGroupName opts (basename opts) of
        Some groupName \<Rightarrow>
          if groupName \<noteq> [] then groupName @ ''-'' @ queryName
          else basename opts @ ''-'' @ queryName
      | None \<Rightarrow> basename opts @ ''-'' @ queryName)"

text \<open>
  One run of \<open>addToStore\<close>, as the event it causes. What its \<open>append\<close> does
  to the parent of the rule is \<open>parent_after_event\<close>, further down.
\<close>

definition addToStore :: "options \<Rightarrow> string \<Rightarrow> atRule \<Rightarrow> event" where
  "addToStore opts name rule = AddMedia name (css rule) (path opts) (params rule)"

text \<open>
  The first \<open>reduce\<close> of the callback: for each pair \<open>[queryName, query]\<close> the rule
  is added to the store, then the bounds of \<open>query\<close> are subtracted from the remainder.
\<close>

fun reduceQueries ::
  "(string \<Rightarrow> string) \<Rightarrow> options \<Rightarrow> atRule \<Rightarrow> (string \<times> string) list \<Rightarrow>
   event list \<times> jsval \<Rightarrow> error + (event list \<times> jsval)" where
  "reduceQueries norm opts rule [] st = Inr st"
| "reduceQueries norm opts rule ((queryName, query) # rest) (trace, remainder) =
     (let name = mediaName opts queryName;
          trace' = trace @ [addToStore opts name rule]
      in case subtractBounds remainder (lookupBounds (queriesBounds norm opts) query) of
           Inl e \<Rightarrow> Inl e
         | Inr remainder' \<Rightarrow>
             reduceQueries norm opts rule rest (trace' @ [Subtract query], remainder'))"

text \<open>\<open>.flat()\<close> is a method of arrays only; \<open>.filter((bounds) => bounds)\<close> keeps
  the truthy entries, which drops \<open>null\<close> and \<open>undefined\<close>.\<close>

fun flat :: "jsval \<Rightarrow> error + jsval list" where
  "flat (Arr xs) = Inr (concat (map spread xs))"
| "flat _ = Inl TypeError"

fun truthy :: "jsval \<Rightarrow> bool" where
  "truthy Undefined = False"
| "truthy Null = False"
| "truthy _ = True"

fun sumSizes :: "jsnum \<Rightarrow> jsval list \<Rightarrow> error + jsnum" where
  "sumSizes acc [] = Inr acc"
| "sumSizes acc (b # bs) =
     (case getBoundsSize b of
        Inl e \<Rightarrow> Inl e
      | Inr s \<Rightarrow> sumSizes (js_add acc s) bs)"

definition boundsRemainderSize ::
  "(string \<Rightarrow> string) \<Rightarrow> options \<Rightarrow> atRule \<Rightarrow> (string \<times> string) list \<Rightarrow>
   error + (event list \<times> jsnum)" where
  "boundsRemainderSize norm opts rule names =
     (case reduceQueries norm opts rule names
             ([], Arr [getQueryBounds norm (params rule)]) of
        Inl e \<Rightarrow> Inl e
      | Inr (trace, remainder) \<Rightarrow>
          (case flat remainder of
             Inl e \<Rightarrow> Inl e
           | Inr bs \<Rightarrow>
               (case sumSizes (Fin 0) (filter truthy bs) of
                  Inl e \<Rightarrow> Inl e
                | Inr acc \<Rightarrow> Inr (trace, acc))))"

text \<open>
  The callback of \<open>css.walkAtRules('media', ...)\<close> on one rule: the events it causes
  and whether it calls \<open>atRule.remove()\<close>.
\<close>

definition walkAtRule ::
  "(string \<Rightarrow> string) \<Rightarrow> options \<Rightarrow> atRule \<Rightarrow> error + (event list \<times> bool)" where
  "walkAtRule norm opts rule =
     (case queryNames norm opts rule of
        Inl e \<Rightarrow> Inl e
      | Inr names \<Rightarrow>
          (case boundsRemainderSize norm opts rule names of
             Inl e \<Rightarrow> Inl e
           | Inr (trace, acc) \<Rightarrow>
               Inr (trace, 0 < length names \<and> js_eq acc (Fin 0))))"

text \<open>
  Where the rule is. postcss is a library, not part of this file. Its
  \<open>append\<close> first removes a node that has a parent from that parent and then makes
  the container the node's parent, so \<open>postcss.root().append(atRule)\<close> in
  \<open>addToStore\<close> takes the rule out of the tree it was walked in and puts it into the
  fresh root. Its \<open>remove\<close> takes a node out of the parent it has.
\<close>

datatype parent = SourceTree | FreshRoot | NoParent

definition append_to_root :: "parent \<Rightarrow> parent" where
  "append_to_root p = FreshRoot"

definition remove_node :: "parent \<Rightarrow> parent" where
  "remove_node p = NoParent"

fun parent_after_event :: "parent \<Rightarrow> event \<Rightarrow> parent" where
  "parent_after_event p (AddMedia name text dest query) = append_to_root p"
| "parent_after_event p (Subtract query) = p"

text \<open>
  The parent of the rule when the callback has returned: it starts in the source tree,
  every run of \<open>addToStore\<close> moves it, and \<open>atRule.remove()\<close>, when called, takes
  it out of whatever holds it then.
\<close>

definition ruleParent ::
  "(string \<Rightarrow> string) \<Rightarrow> options \<Rightarrow> atRule \<Rightarrow> error + parent" where
  "ruleParent norm opts rule =
     (case walkAtRule norm opts rule of
        Inl e \<Rightarrow> Inl e
      | Inr (trace, removed) \<Rightarrow>
          (let p = foldl parent_after_event SourceTree trace
           in Inr (if removed then remove_node p else p)))"

section \<open>Predicates used in the statements\<close>

text \<open>
  A value without \<open>undefined\<close> in it: \<open>null\<close>, a bounds object, or an array of
  such values.
\<close>

fun defined :: "jsval \<Rightarrow> bool" where
  "defined Undefined = False"
| "defined Null = True"
| "defined (Obj b) = True"
| "defined (Arr xs) = list_all defined xs"

text \<open>An entry of the remainder: \<open>null\<close> or a bounds object.\<close>

fun entry :: "jsval \<Rightarrow> bool" where
  "entry Null = True"
| "entry (Obj b) = True"
| "entry _ = False"

text \<open>A property of every bounds object of a result of \<open>subtractBounds\<close>.\<close>

fun each_bounds :: "(bounds \<Rightarrow> bool) \<Rightarrow> jsval \<Rightarrow> bool" where
  "each_bounds P (Obj b) = P b"
| "each_bounds P (Arr xs) = list_all (each_bounds P) xs"
| "each_bounds P _ = True"

text \<open>
  The events that the pairs \<open>[queryName, query]\<close> must cause, in order: for each pair
  the call of \<open>store.addMedia\<close>, then the subtraction.
\<close>

definition events_of :: "options \<Rightarrow> atRule \<Rightarrow> (string \<times> string) list \<Rightarrow> event list" where
  "events_of opts rule names =
     concat (map (\<lambda>(queryName, query).
       [AddMedia (mediaName opts queryName) (css rule) (path opts) (params rule),
        Subtract query]) names)"

text \<open>
  The candidate sequence in the words of the specification (CandidateResolver): the
  breakpoints whose bounds intersect the rule's bounds, in table order, followed by the
  breakpoints whose raw condition normalizes to the rule's normalized condition, in
  table order, nothing removed.
\<close>

definition resolve_spec ::
  "(string \<Rightarrow> string) \<Rightarrow> options \<Rightarrow> atRule \<Rightarrow> (string \<times> string) list" where
  "resolve_spec norm opts rule =
     map (\<lambda>(q, name). (name, q))
       (filter (\<lambda>(q, name).
          boundsIntersects (getQueryBounds norm (params rule)) (getQueryBounds norm q) = Inr True)
        (queries opts))
     @ map (\<lambda>(q, name). (name, q))
         (filter (\<lambda>(q, name). norm q = norm (params rule)) (queries opts))"

text \<open>
  A configuration used in the examples: two width breakpoints that meet at 768, a
  breakpoint without any width, and one group.
\<close>

definition ex_options :: options where
  "ex_options =
     \<lparr>queries = [(''(min-width:0px)and(max-width:768px)'', ''small''),
                 (''(min-width:768px)and(max-width:1200px)'', ''large''),
                 (''print'', ''paper'')],
      groups = [(''layout'', Array [''header'', ''footer''])],
      basename = ''header'',
      path = ''dist''\<rparr>"

text \<open>A configuration with a single breakpoint, up to 600, and no group.\<close>

definition small_options :: options where
  "small_options =
     \<lparr>queries = [(''(min-width:0px)and(max-width:600px)'', ''small'')],
      groups = [],
      basename = ''header'',
      path = ''dist''\<rparr>"

section \<open>Subtraction of bounds\<close>

lemmas js_cmp_defs = js_gt_def js_le_def js_ge_def js_eq_def

lemma js_lt_irrefl: "\<not> js_lt a a"
  by (cases a) simp_all

lemma js_lt_NaN_right: "\<not> js_lt a NaN"
  by (cases a) simp_all

lemma js_lt_not_NaN: "js_lt a b \<Longrightarrow> a \<noteq> NaN \<and> b \<noteq> NaN"
  by (cases a; cases b) simp_all

lemma boundsIncluded_Obj [simp]:
  "boundsIncluded (Obj a) (Obj b) =
     Inr (js_ge (minWidth a) (minWidth b) \<and> js_le (maxWidth a) (maxWidth b))"
  by (simp add: boundsIncluded_def)

lemma boundsIntersects_Obj [simp]:
  "boundsIntersects (Obj a) (Obj b) =
     Inr (if js_le (minWidth a) (minWidth b) then js_gt (maxWidth a) (minWidth b)
          else js_lt (minWidth a) (maxWidth b))"
  by (simp add: boundsIntersects_def)

lemma subtractBounds_Obj:
  "subtractBounds (Obj a) (Obj b) =
     (if js_ge (minWidth a) (minWidth b) \<and> js_le (maxWidth a) (maxWidth b) then Inr Null
      else if js_ge (minWidth b) (minWidth a) \<and> js_le (maxWidth b) (maxWidth a)
        then Inr (Arr [nullBounds \<lparr>minWidth = minWidth a, maxWidth = minWidth b\<rparr>,
                       nullBounds \<lparr>minWidth = maxWidth b, maxWidth = maxWidth a\<rparr>])
      else if (if js_le (minWidth a) (minWidth b) then js_gt (maxWidth a) (minWidth b)
               else js_lt (minWidth a) (maxWidth b))
        then (if js_lt (minWidth a) (minWidth b)
              then Inr (Obj \<lparr>minWidth = minWidth a, maxWidth = minWidth b\<rparr>)
              else Inr (Obj \<lparr>minWidth = maxWidth b, maxWidth = maxWidth a\<rparr>))
      else Inr (Obj a))"
  by simp

text \<open>
  Claim C8. For every bounds object \<open>A\<close> with \<open>minWidth < maxWidth\<close> (which makes
  both endpoints numbers or infinities), \<open>subtractBounds(A, A)\<close> is \<open>null\<close>.
\<close>

theorem subtract_self_empty:
  "js_lt (minWidth a) (maxWidth a) \<Longrightarrow> subtractBounds (Obj a) (Obj a) = Inr Null"
  using js_lt_not_NaN [of "minWidth a" "maxWidth a"]
  by (simp add: js_cmp_defs js_lt_irrefl)

theorem subtract_self_empty_witness:
  "js_lt (Fin 0) (Fin 768) \<and>
   subtractBounds (Obj \<lparr>minWidth = Fin 0, maxWidth = Fin 768\<rparr>)
     (Obj \<lparr>minWidth = Fin 0, maxWidth = Fin 768\<rparr>) = Inr Null"
  using subtract_self_empty [of "\<lparr>minWidth = Fin 0, maxWidth = Fin 768\<rparr>"]
  by simp

text \<open>
  The claim as first stated covers every pair of values. The degenerate bounds
  \<open>{0, 0}\<close> do not intersect \<open>{0, 10}\<close> but are included in them, and the
  inclusion test comes first: the difference is \<open>null\<close>.
\<close>

theorem disjoint_subtract_counterexample:
  "\<not> (boundsIntersects (Obj \<lparr>minWidth = Fin 0, maxWidth = Fin 0\<rparr>)
         (Obj \<lparr>minWidth = Fin 0, maxWidth = Fin 10\<rparr>) = Inr False
       \<longrightarrow> subtractBounds (Obj \<lparr>minWidth = Fin 0, maxWidth = Fin 0\<rparr>)
             (Obj \<lparr>minWidth = Fin 0, maxWidth = Fin 10\<rparr>)
           = Inr (Obj \<lparr>minWidth = Fin 0, maxWidth = Fin 0\<rparr>))"
  by (simp add: js_cmp_defs)

text \<open>
  Claim C9, amended. For bounds objects \<open>A\<close> and \<open>B\<close> neither of which satisfies
  \<open>minWidth >= maxWidth\<close> (each is ordered and non-degenerate, or has an endpoint that
  is NaN, as the untracked value has): if \<open>boundsIntersects(A, B)\<close> is false, then
  \<open>subtractBounds(A, B)\<close> returns \<open>A\<close>.
\<close>

theorem disjoint_subtract_unchanged:
  assumes "\<not> js_ge (minWidth a) (maxWidth a)"
    and "\<not> js_ge (minWidth b) (maxWidth b)"
    and "boundsIntersects (Obj a) (Obj b) = Inr False"
  shows "subtractBounds (Obj a) (Obj b) = Inr (Obj a)"
proof -
  obtain a1 a2 b1 b2 where ab: "minWidth a = a1" "maxWidth a = a2" "minWidth b = b1" "maxWidth b = b2"
    by simp
  show ?thesis
    using assms unfolding subtractBounds_Obj boundsIntersects_Obj ab js_cmp_defs
    by (cases a1; cases a2; cases b1; cases b2) (simp_all split: if_splits)
qed

theorem disjoint_subtract_unchanged_witness:
  "\<not> js_ge (Fin 0) (Fin 768) \<and> \<not> js_ge (Fin 768) (Fin 1200) \<and>
   boundsIntersects (Obj \<lparr>minWidth = Fin 0, maxWidth = Fin 768\<rparr>)
     (Obj \<lparr>minWidth = Fin 768, maxWidth = Fin 1200\<rparr>) = Inr False \<and>
   subtractBounds (Obj \<lparr>minWidth = Fin 0, maxWidth = Fin 768\<rparr>)
     (Obj \<lparr>minWidth = Fin 768, maxWidth = Fin 1200\<rparr>)
     = Inr (Obj \<lparr>minWidth = Fin 0, maxWidth = Fin 768\<rparr>)"
  using disjoint_subtract_unchanged [of "\<lparr>minWidth = Fin 0, maxWidth = Fin 768\<rparr>"
      "\<lparr>minWidth = Fin 768, maxWidth = Fin 1200\<rparr>"]
  by (simp add: js_cmp_defs)

section \<open>The size of bounds\<close>

lemma round_magnitude_nonneg: "0 \<le> a \<Longrightarrow> 0 \<le> round_magnitude a"
  by (simp add: round_magnitude_def Let_def pos_imp_zdiv_nonneg_iff)

lemma js_round_nonneg:
  "0 \<le> n \<Longrightarrow> js_round n = PosInf \<or> (\<exists>v\<ge>0. js_round n = Fin v)"
  using round_magnitude_nonneg [of "\<bar>n\<bar>"]
  by (auto simp: js_round_def Let_def)

lemma js_round_small: "\<bar>n\<bar> \<le> 2 ^ 53 \<Longrightarrow> js_round n = Fin n"
  by (simp add: js_round_def exact_limit_def)

lemma getBoundsSize_Obj:
  "getBoundsSize (Obj b) =
     Inr (if js_gt (js_sub (maxWidth b) (minWidth b)) (Fin 1)
          then js_sub (js_sub (maxWidth b) (minWidth b)) (Fin 1) else Fin 0)"
  by (simp add: getBoundsSize_def Let_def)

lemma size_step_nonneg:
  "js_ge (if js_gt x (Fin 1) then js_sub x (Fin 1) else Fin 0) (Fin 0)"
proof (cases x)
  case (Fin k)
  show ?thesis
  proof (cases "1 < k")
    case True
    then have "0 \<le> k + - 1" by simp
    from js_round_nonneg [OF this] show ?thesis
      using True Fin by (auto simp: js_cmp_defs js_sub_def)
  next
    case False
    then show ?thesis using Fin by (simp add: js_cmp_defs)
  qed
qed (simp_all add: js_cmp_defs js_sub_def)

text \<open>
  The claim as first stated gives the empty bounds the size 0; \<open>getBoundsSize(null)\<close>
  throws a TypeError instead.
\<close>

theorem size_empty_counterexample:
  "getBoundsSize Null = Inl TypeError \<and> getBoundsSize Null \<noteq> Inr (Fin 0)"
  by (simp add: getBoundsSize_def)

text \<open>
  Claim C4, amended. For a bounds object with \<open>gap = maxWidth - minWidth\<close>,
  \<open>getBoundsSize\<close> returns \<open>gap - 1\<close> when \<open>gap > 1\<close> and 0 otherwise; a gap of
  1 gives 0; the result is never negative. An empty (\<open>null\<close>) entry is not measured:
  the callback filters it out before summing, so it adds nothing to the remainder size.
\<close>

theorem size_of_bounds:
  "getBoundsSize (Obj b) =
     Inr (if js_gt (js_sub (maxWidth b) (minWidth b)) (Fin 1)
          then js_sub (js_sub (maxWidth b) (minWidth b)) (Fin 1) else Fin 0)
   \<and> (js_eq (js_sub (maxWidth b) (minWidth b)) (Fin 1) \<longrightarrow> getBoundsSize (Obj b) = Inr (Fin 0))
   \<and> (\<exists>n. getBoundsSize (Obj b) = Inr n \<and> js_ge n (Fin 0))
   \<and> sumSizes acc (filter truthy (Null # bs)) = sumSizes acc (filter truthy bs)"
  using size_step_nonneg [of "js_sub (maxWidth b) (minWidth b)"]
  by (simp add: getBoundsSize_Obj js_cmp_defs)

theorem size_of_bounds_witness:
  "js_eq (js_sub (Fin 769) (Fin 768)) (Fin 1) \<and>
   getBoundsSize (Obj \<lparr>minWidth = Fin 768, maxWidth = Fin 769\<rparr>) = Inr (Fin 0)"
  using size_of_bounds [of "\<lparr>minWidth = Fin 768, maxWidth = Fin 769\<rparr>"]
  by (simp add: js_cmp_defs js_sub_def js_round_small)

section \<open>The untracked value in the tests\<close>

text \<open>
  The claim as first stated has the four tests return false against the empty bounds as
  well; none of them returns false there.
\<close>

theorem untracked_empty_counterexample:
  "boundsIncluded Untracked Null \<noteq> Inr False \<and> boundsIncluded Null Untracked \<noteq> Inr False \<and>
   boundsIntersects Untracked Null \<noteq> Inr False \<and> boundsIntersects Null Untracked \<noteq> Inr False"
  by (simp add: Untracked_def boundsIncluded_def boundsIntersects_def)

text \<open>
  Claim C7, amended. Against every bounds object, tracked or not, the untracked value is
  neither included, nor including, nor intersecting: the four tests return false. Against
  \<open>null\<close> the four tests throw a TypeError, so they do not return true either.
\<close>

theorem untracked_never_matches:
  "boundsIncluded Untracked (Obj b) = Inr False \<and>
   boundsIncluded (Obj b) Untracked = Inr False \<and>
   boundsIntersects Untracked (Obj b) = Inr False \<and>
   boundsIntersects (Obj b) Untracked = Inr False \<and>
   boundsIncluded Untracked Null = Inl TypeError \<and>
   boundsIncluded Null Untracked = Inl TypeError \<and>
   boundsIntersects Untracked Null = Inl TypeError \<and>
   boundsIntersects Null Untracked = Inl TypeError"
  by (simp add: Untracked_def boundsIncluded_def boundsIntersects_def js_cmp_defs js_lt_NaN_right)

section \<open>Which operations return a value\<close>

lemma spread_defined: "defined v \<Longrightarrow> list_all defined (spread v)"
  by (cases v) simp_all

lemma flatMap_defined:
  "(\<And>x. x \<in> set xs \<Longrightarrow> \<exists>v. f x = Inr v \<and> defined v) \<Longrightarrow>
   \<exists>ys. flatMap f xs = Inr ys \<and> list_all defined ys"
proof (induction xs)
  case Nil
  then show ?case by simp
next
  case (Cons x xs)
  from Cons.prems [of x] obtain v where v: "f x = Inr v" "defined v" by auto
  from Cons.IH Cons.prems obtain ys where ys: "flatMap f xs = Inr ys" "list_all defined ys"
    by auto
  show ?case using v ys by (simp add: spread_defined)
qed

lemma subtractBounds_Obj_any:
  "b \<noteq> Undefined \<Longrightarrow> \<exists>v. subtractBounds (Obj a) b = Inr v \<and> defined v"
  by (cases b) (simp_all add: boundsIncluded_def boundsIntersects_def nullBounds_def js_cmp_defs)

lemma subtractBounds_defined:
  "defined a \<Longrightarrow> b \<noteq> Undefined \<Longrightarrow> \<exists>v. subtractBounds a b = Inr v \<and> defined v"
proof (induction a)
  case (Arr xs)
  have "\<exists>ys. flatMap (\<lambda>x. subtractBounds x b) xs = Inr ys \<and> list_all defined ys"
    using Arr by (intro flatMap_defined) (auto simp: list_all_iff)
  then show ?case by auto
qed (simp_all add: subtractBounds_Obj_any)

text \<open>
  The claim as first stated has the three tests total on the empty bounds too; each of
  them destructures its argument, which throws on \<open>null\<close>.
\<close>

theorem algebra_total_counterexample:
  "\<not> (\<exists>r. boundsIncluded Null (Obj \<lparr>minWidth = Fin 0, maxWidth = Fin 768\<rparr>) = Inr r) \<and>
   \<not> (\<exists>r. boundsIntersects (Obj \<lparr>minWidth = Fin 0, maxWidth = Fin 768\<rparr>) Null = Inr r) \<and>
   \<not> (\<exists>n. getBoundsSize Null = Inr n)"
  by (simp add: boundsIncluded_def boundsIntersects_def getBoundsSize_def)

text \<open>
  Claim C6, amended. \<open>subtractBounds\<close> returns a value for every first operand that is
  \<open>null\<close>, a bounds object or an array of such, and every second operand other than
  \<open>undefined\<close>. \<open>boundsIncluded\<close>, \<open>boundsIntersects\<close> and \<open>getBoundsSize\<close>
  return a value on bounds objects, the untracked one included; on \<open>null\<close> they throw
  a TypeError.
\<close>

theorem algebra_total:
  "(defined a \<and> b \<noteq> Undefined \<longrightarrow> (\<exists>v. subtractBounds a b = Inr v)) \<and>
   (\<exists>r. boundsIncluded (Obj x) (Obj y) = Inr r) \<and>
   (\<exists>r. boundsIntersects (Obj x) (Obj y) = Inr r) \<and>
   (\<exists>n. getBoundsSize (Obj x) = Inr n) \<and>
   boundsIncluded Null (Obj y) = Inl TypeError \<and>
   boundsIncluded (Obj x) Null = Inl TypeError \<and>
   boundsIntersects Null (Obj y) = Inl TypeError \<and>
   boundsIntersects (Obj x) Null = Inl TypeError \<and>
   getBoundsSize Null = Inl TypeError"
  using subtractBounds_defined [of a b]
  by (auto simp: boundsIncluded_def boundsIntersects_def getBoundsSize_def Let_def)

theorem algebra_total_witness:
  "defined (Arr [Obj \<lparr>minWidth = Fin 0, maxWidth = Fin 1200\<rparr>, Null]) \<and> Null \<noteq> Undefined \<and>
   (\<exists>v. subtractBounds (Arr [Obj \<lparr>minWidth = Fin 0, maxWidth = Fin 1200\<rparr>, Null]) Null = Inr v)"
  using algebra_total [of "Arr [Obj \<lparr>minWidth = Fin 0, maxWidth = Fin 1200\<rparr>, Null]" Null]
  by simp

section \<open>Order of the endpoints\<close>

text \<open>
  The claim as first stated includes the parser: a query whose \<open>min-width\<close> exceeds its
  \<open>max-width\<close> is returned with \<open>minWidth > maxWidth\<close>, and one with equal widths as a
  bounds object, not as \<open>null\<close>.
\<close>

theorem parser_order_counterexample:
  "getQueryBounds (\<lambda>s. s) ''(min-width:1024px)and(max-width:768px)''
     = Obj \<lparr>minWidth = Fin 1024, maxWidth = Fin 768\<rparr> \<and>
   \<not> js_le (Fin 1024) (Fin 768) \<and>
   getQueryBounds (\<lambda>s. s) ''(min-width:768px)and(max-width:768px)''
     = Obj \<lparr>minWidth = Fin 768, maxWidth = Fin 768\<rparr> \<and>
   js_eq (Fin 768) (Fin 768)"
  by code_simp

text \<open>
  Claim C5, amended. When both operands of \<open>subtractBounds\<close> satisfy
  \<open>minWidth <= maxWidth\<close>, every bounds object of the result does; and when the first
  operand has \<open>minWidth < maxWidth\<close>, every bounds object of the result has, the halves
  of a split with equal endpoints having become \<open>null\<close>. (\<open>getQueryBounds\<close> neither
  orders nor normalizes the widths it extracts.)
\<close>

theorem subtract_keeps_order:
  assumes "js_le (minWidth a) (maxWidth a)" and "js_le (minWidth b) (maxWidth b)"
  shows "\<exists>v. subtractBounds (Obj a) (Obj b) = Inr v \<and>
           each_bounds (\<lambda>c. js_le (minWidth c) (maxWidth c)) v \<and>
           (js_lt (minWidth a) (maxWidth a) \<longrightarrow>
              each_bounds (\<lambda>c. js_lt (minWidth c) (maxWidth c)) v)"
proof -
  obtain a1 a2 b1 b2 where ab: "minWidth a = a1" "maxWidth a = a2" "minWidth b = b1" "maxWidth b = b2"
    by simp
  have a: "a = \<lparr>minWidth = a1, maxWidth = a2\<rparr>" using ab by simp
  show ?thesis
    using assms unfolding subtractBounds_Obj ab js_cmp_defs nullBounds_def
    by (cases a1; cases a2; cases b1; cases b2) (simp_all add: a js_cmp_defs)
qed

theorem subtract_keeps_order_witness:
  "js_le (Fin 0) (Fin 1200) \<and> js_le (Fin 768) (Fin 1200) \<and> js_lt (Fin 0) (Fin 1200) \<and>
   subtractBounds (Obj \<lparr>minWidth = Fin 0, maxWidth = Fin 1200\<rparr>)
       (Obj \<lparr>minWidth = Fin 768, maxWidth = Fin 1200\<rparr>)
     = Inr (Arr [Obj \<lparr>minWidth = Fin 0, maxWidth = Fin 768\<rparr>, Null])"
  using subtract_keeps_order [of "\<lparr>minWidth = Fin 0, maxWidth = Fin 1200\<rparr>"
      "\<lparr>minWidth = Fin 768, maxWidth = Fin 1200\<rparr>"]
  by (simp add: js_cmp_defs nullBounds_def)

section \<open>The parser\<close>

lemma getQueryBounds_Obj: "\<exists>b. getQueryBounds norm q = Obj b"
  by (simp add: getQueryBounds_def Let_def)

lemma getQueryBounds_no_width:
  "minWidthRegExp (norm q) = None \<Longrightarrow> maxWidthRegExp (norm q) = None \<Longrightarrow>
   getQueryBounds norm q = Untracked"
  by (simp add: getQueryBounds_def Untracked_def js_cmp_defs)

lemma screen_no_width:
  "minWidthRegExp ''screen'' = None \<and> maxWidthRegExp ''screen'' = None"
  by code_simp

text \<open>
  Claim C2. With \<open>mn\<close> and \<open>mx\<close> the two extracted widths: when one of them is a
  number above zero, \<open>getQueryBounds\<close> returns the bounds whose \<open>minWidth\<close> is
  \<open>mn\<close> if that is a non-negative number and \<open>-Infinity\<close> otherwise, and whose
  \<open>maxWidth\<close> is \<open>mx\<close> if that is a non-negative number and \<open>Infinity\<close>
  otherwise; in every other case it returns the pair as extracted, which is the untracked
  value when neither expression matched. For a normalizer that leaves \<open>screen\<close> as it
  is, the query \<open>screen\<close> is untracked.
\<close>

theorem parse_bounds:
  "(let mn = toNumber (minWidthRegExp (norm query));
        mx = toNumber (maxWidthRegExp (norm query))
    in (js_gt mn (Fin 0) \<or> js_gt mx (Fin 0) \<longrightarrow>
          getQueryBounds norm query =
            Obj \<lparr>minWidth = (if mn \<noteq> NaN \<and> js_ge mn (Fin 0) then mn else NegInf),
                 maxWidth = (if mx \<noteq> NaN \<and> js_ge mx (Fin 0) then mx else PosInf)\<rparr>) \<and>
       (\<not> js_gt mn (Fin 0) \<and> \<not> js_gt mx (Fin 0) \<longrightarrow>
          getQueryBounds norm query = Obj \<lparr>minWidth = mn, maxWidth = mx\<rparr>)) \<and>
   (minWidthRegExp (norm query) = None \<and> maxWidthRegExp (norm query) = None \<longrightarrow>
      getQueryBounds norm query = Untracked) \<and>
   (norm ''screen'' = ''screen'' \<longrightarrow> getQueryBounds norm ''screen'' = Untracked)"
  using screen_no_width getQueryBounds_no_width [of norm query]
    getQueryBounds_no_width [of norm "''screen''"]
  by (auto simp: getQueryBounds_def Let_def js_cmp_defs)

theorem parse_bounds_witness:
  "getQueryBounds (\<lambda>s. s) ''(max-width:600px)'' = Obj \<lparr>minWidth = NegInf, maxWidth = Fin 600\<rparr> \<and>
   getQueryBounds (\<lambda>s. s) ''(max-width:0px)'' = Obj \<lparr>minWidth = NaN, maxWidth = Fin 0\<rparr> \<and>
   getQueryBounds (\<lambda>s. s) ''screen'' = Untracked"
proof -
  have 1: "toNumber (minWidthRegExp ''(max-width:600px)'') = NaN"
    by code_simp
  have 2: "toNumber (maxWidthRegExp ''(max-width:600px)'') = Fin 600"
    by code_simp
  have 3: "toNumber (minWidthRegExp ''(max-width:0px)'') = NaN"
    by code_simp
  have 4: "toNumber (maxWidthRegExp ''(max-width:0px)'') = Fin 0"
    by code_simp
  show ?thesis
    using parse_bounds [of "\<lambda>s. s" "''(max-width:600px)''"]
      parse_bounds [of "\<lambda>s. s" "''(max-width:0px)''"]
      parse_bounds [of "\<lambda>s. s" "''screen''"]
    by (simp add: 1 2 3 4 js_cmp_defs)
qed

section \<open>The callback: query names, store and removal\<close>

lemma foldl_update_lookup:
  "foldl (\<lambda>m q. m(q \<mapsto> f q)) m0 ks q = (if q \<in> set ks then Some (f q) else m0 q)"
  by (induction ks arbitrary: m0) auto

lemma lookupBounds_table:
  "q \<in> fst ` set (queries opts) \<Longrightarrow>
   lookupBounds (queriesBounds norm opts) q = getQueryBounds norm q"
  by (simp add: lookupBounds_def queriesBounds_def foldl_update_lookup)

lemma filterE_pure:
  "(\<And>x. x \<in> set xs \<Longrightarrow> f x = Inr (p x)) \<Longrightarrow> filterE f xs = Inr (filter p xs)"
  by (induction xs) simp_all

lemma boundsIntersects_Obj_bool:
  "boundsIntersects (Obj a) (Obj b) = Inr (boundsIntersects (Obj a) (Obj b) = Inr True)"
  by simp

lemma queryNames_resolve: "queryNames norm opts rule = Inr (resolve_spec norm opts rule)"
proof -
  obtain rb where rb: "getQueryBounds norm (params rule) = Obj rb"
    using getQueryBounds_Obj by blast
  have "filterE (\<lambda>(q, name). boundsIntersects (Obj rb) (lookupBounds (queriesBounds norm opts) q))
          (queries opts)
        = Inr (filter (\<lambda>(q, name). boundsIntersects (Obj rb) (getQueryBounds norm q) = Inr True)
                 (queries opts))"
  proof (rule filterE_pure)
    fix x assume x: "x \<in> set (queries opts)"
    obtain q name where qn: "x = (q, name)" by (cases x)
    obtain b where b: "getQueryBounds norm q = Obj b"
      using getQueryBounds_Obj by blast
    have "q \<in> fst ` set (queries opts)" using x qn by force
    then have "lookupBounds (queriesBounds norm opts) q = Obj b"
      by (simp add: lookupBounds_table b)
    then show "(case x of (q, name) \<Rightarrow>
                  boundsIntersects (Obj rb) (lookupBounds (queriesBounds norm opts) q))
             = Inr (case x of (q, name) \<Rightarrow>
                  boundsIntersects (Obj rb) (getQueryBounds norm q) = Inr True)"
      using boundsIntersects_Obj_bool [of rb b] by (simp only: qn b prod.case)
  qed
  then have "getQueryNamesByBounds norm opts (Obj rb)
      = Inr (map (\<lambda>(q, name). (name, q))
          (filter (\<lambda>(q, name). boundsIntersects (Obj rb) (getQueryBounds norm q) = Inr True)
             (queries opts)))"
    by (simp add: getQueryNamesByBounds_def)
  then show ?thesis
    by (simp add: queryNames_def resolve_spec_def rb getQueryNamesByDefinition_def)
qed

lemma subtractBounds_entry:
  "entry x \<Longrightarrow> \<exists>v. subtractBounds x (Obj b) = Inr v \<and> list_all entry (spread v)"
  by (cases x) (simp_all add: nullBounds_def)

lemma flatMap_entries:
  "list_all entry xs \<Longrightarrow>
   \<exists>ys. flatMap (\<lambda>x. subtractBounds x (Obj b)) xs = Inr ys \<and> list_all entry ys"
proof (induction xs)
  case Nil
  then show ?case by simp
next
  case (Cons x xs)
  from Cons.prems have "entry x" by simp
  from subtractBounds_entry [OF this, of b] obtain v
    where v: "subtractBounds x (Obj b) = Inr v" "list_all entry (spread v)" by blast
  from Cons obtain ys where "flatMap (\<lambda>x. subtractBounds x (Obj b)) xs = Inr ys"
    "list_all entry ys" by auto
  with v show ?case by simp
qed

lemma reduceQueries_entries:
  "list_all entry xs \<Longrightarrow> snd ` set names \<subseteq> fst ` set (queries opts) \<Longrightarrow>
   \<exists>ys. reduceQueries norm opts rule names (tr, Arr xs)
           = Inr (tr @ events_of opts rule names, Arr ys) \<and> list_all entry ys"
proof (induction names arbitrary: tr xs)
  case Nil
  then show ?case by (simp add: events_of_def)
next
  case (Cons p names)
  obtain queryName query where p: "p = (queryName, query)" by (cases p)
  have "query \<in> fst ` set (queries opts)" using Cons.prems(2) p by auto
  then obtain b where b: "lookupBounds (queriesBounds norm opts) query = Obj b"
    using getQueryBounds_Obj [of norm query] by (auto simp: lookupBounds_table)
  from flatMap_entries [OF Cons.prems(1), of b] obtain ys
    where ys: "flatMap (\<lambda>x. subtractBounds x (Obj b)) xs = Inr ys" "list_all entry ys"
    by blast
  have names: "snd ` set names \<subseteq> fst ` set (queries opts)" using Cons.prems(2) by auto
  from Cons.IH [OF ys(2) names,
      of "tr @ [addToStore opts (mediaName opts queryName) rule, Subtract query]"]
  obtain zs where zs: "reduceQueries norm opts rule names
        (tr @ [addToStore opts (mediaName opts queryName) rule, Subtract query], Arr ys)
      = Inr ((tr @ [addToStore opts (mediaName opts queryName) rule, Subtract query])
              @ events_of opts rule names, Arr zs)" "list_all entry zs"
    by blast
  show ?case
    using zs by (simp add: p b ys events_of_def addToStore_def Let_def)
qed

lemma concat_spread_entries: "list_all entry ys \<Longrightarrow> concat (map spread ys) = ys"
proof (induction ys)
  case Nil
  then show ?case by simp
next
  case (Cons y ys)
  then show ?case by (cases y) simp_all
qed

lemma sumSizes_entries: "list_all entry ys \<Longrightarrow> \<exists>n. sumSizes acc (filter truthy ys) = Inr n"
proof (induction ys arbitrary: acc)
  case Nil
  then show ?case by simp
next
  case (Cons y ys)
  then show ?case by (cases y) (simp_all add: getBoundsSize_Obj)
qed

lemma resolve_spec_in_table:
  "snd ` set (resolve_spec norm opts rule) \<subseteq> fst ` set (queries opts)"
  by (force simp: resolve_spec_def)

lemma boundsRemainderSize_total:
  assumes "snd ` set names \<subseteq> fst ` set (queries opts)"
  shows "\<exists>acc. boundsRemainderSize norm opts rule names = Inr (events_of opts rule names, acc)"
proof -
  obtain rb where rb: "getQueryBounds norm (params rule) = Obj rb"
    using getQueryBounds_Obj by blast
  have "list_all entry [Obj rb]" by simp
  from reduceQueries_entries [OF this assms, where tr = "[]" and norm = norm and rule = rule]
  obtain ys
    where ys: "reduceQueries norm opts rule names ([], Arr [Obj rb])
               = Inr (events_of opts rule names, Arr ys)" "list_all entry ys"
    by auto
  from sumSizes_entries [OF ys(2), of "Fin 0"] obtain n
    where "sumSizes (Fin 0) (filter truthy ys) = Inr n" by blast
  then show ?thesis
    using ys by (simp add: boundsRemainderSize_def rb concat_spread_entries)
qed

text \<open>
  The call of \<open>atRule.remove()\<close>: the callback returns without an exception and makes
  the call exactly when the list of query names is non-empty and the size of the
  remainder is the number 0. With an empty list nothing is added to the store.
\<close>

lemma remove_call_decision:
  "\<exists>names acc.
     queryNames norm opts rule = Inr names \<and>
     boundsRemainderSize norm opts rule names = Inr (events_of opts rule names, acc) \<and>
     walkAtRule norm opts rule = Inr (events_of opts rule names, names \<noteq> [] \<and> acc = Fin 0) \<and>
     (names = [] \<longrightarrow> walkAtRule norm opts rule = Inr ([], False))"
proof -
  from boundsRemainderSize_total [OF resolve_spec_in_table]
  obtain acc where acc: "boundsRemainderSize norm opts rule (resolve_spec norm opts rule)
      = Inr (events_of opts rule (resolve_spec norm opts rule), acc)"
    by blast
  have "walkAtRule norm opts rule
      = Inr (events_of opts rule (resolve_spec norm opts rule),
             resolve_spec norm opts rule \<noteq> [] \<and> acc = Fin 0)"
    by (simp add: walkAtRule_def queryNames_resolve acc js_eq_def) auto
  then show ?thesis
    using acc queryNames_resolve [of norm opts rule] by (auto simp: events_of_def)
qed

lemma parent_after_events:
  "foldl parent_after_event p (events_of opts rule names)
   = (if names = [] then p else FreshRoot)"
proof (induction names arbitrary: p)
  case Nil
  then show ?case by (simp add: events_of_def)
next
  case (Cons n names)
  obtain queryName query where n: "n = (queryName, query)" by (cases n)
  have "events_of opts rule (n # names)
      = [AddMedia (mediaName opts queryName) (css rule) (path opts) (params rule),
         Subtract query] @ events_of opts rule names"
    by (simp add: events_of_def n)
  then show ?case
    using Cons.IH [of FreshRoot] by (simp add: append_to_root_def)
qed

text \<open>
  Where the rule ends up: it is still in the source tree exactly when no query name was
  found for it. The size of the remainder does not matter.
\<close>

lemma rule_parent_decision:
  "\<exists>names p.
     queryNames norm opts rule = Inr names \<and>
     ruleParent norm opts rule = Inr p \<and>
     (p = SourceTree \<longleftrightarrow> names = [])"
proof -
  from remove_call_decision [of norm opts rule] obtain names acc
    where n: "queryNames norm opts rule = Inr names"
      and w: "walkAtRule norm opts rule
              = Inr (events_of opts rule names, names \<noteq> [] \<and> acc = Fin 0)"
    by blast
  have "ruleParent norm opts rule
      = Inr (if names \<noteq> [] \<and> acc = Fin 0 then NoParent
             else if names = [] then SourceTree else FreshRoot)"
    by (simp add: ruleParent_def w parent_after_events remove_node_def)
  then show ?thesis using n by auto
qed

text \<open>
  Claim C1 says that a rule leaves the source tree if and only if it has a query name and
  the size of its remainder is 0, as the comment above the reduction does. The code does
  not keep to it. With the single breakpoint up to 600 and a rule up to 1200, there is
  one query name, the size of the remainder is 599 and \<open>atRule.remove()\<close> is not
  called; but \<open>addToStore\<close> has appended the rule to a fresh root, so the rule is no
  longer in the source tree.
\<close>

theorem rule_detached_with_remainder:
  "queryNames (\<lambda>s. s) small_options
     \<lparr>params = ''(min-width:0px)and(max-width:1200px)'', css = ''c''\<rparr>
   = Inr [(''small'', ''(min-width:0px)and(max-width:600px)'')] \<and>
   boundsRemainderSize (\<lambda>s. s) small_options
     \<lparr>params = ''(min-width:0px)and(max-width:1200px)'', css = ''c''\<rparr>
     [(''small'', ''(min-width:0px)and(max-width:600px)'')]
   = Inr ([AddMedia ''header-small'' ''c'' ''dist'' ''(min-width:0px)and(max-width:1200px)'',
           Subtract ''(min-width:0px)and(max-width:600px)''], Fin 599) \<and>
   walkAtRule (\<lambda>s. s) small_options
     \<lparr>params = ''(min-width:0px)and(max-width:1200px)'', css = ''c''\<rparr>
   = Inr ([AddMedia ''header-small'' ''c'' ''dist'' ''(min-width:0px)and(max-width:1200px)'',
           Subtract ''(min-width:0px)and(max-width:600px)''], False) \<and>
   ruleParent (\<lambda>s. s) small_options
     \<lparr>params = ''(min-width:0px)and(max-width:1200px)'', css = ''c''\<rparr>
   = Inr FreshRoot"
  by code_simp

lemma coverage_examples:
  "walkAtRule (\<lambda>s. s) ex_options
     \<lparr>params = ''(min-width:0px)and(max-width:1200px)'', css = ''c''\<rparr>
   = Inr ([AddMedia ''layout-small'' ''c'' ''dist'' ''(min-width:0px)and(max-width:1200px)'',
           Subtract ''(min-width:0px)and(max-width:768px)'',
           AddMedia ''layout-large'' ''c'' ''dist'' ''(min-width:0px)and(max-width:1200px)'',
           Subtract ''(min-width:768px)and(max-width:1200px)''], True)"
  "walkAtRule (\<lambda>s. s) ex_options
     \<lparr>params = ''(min-width:0px)and(max-width:2000px)'', css = ''c''\<rparr>
   = Inr ([AddMedia ''layout-small'' ''c'' ''dist'' ''(min-width:0px)and(max-width:2000px)'',
           Subtract ''(min-width:0px)and(max-width:768px)'',
           AddMedia ''layout-large'' ''c'' ''dist'' ''(min-width:0px)and(max-width:2000px)'',
           Subtract ''(min-width:768px)and(max-width:1200px)''], False)"
  by code_simp+






section \<open>Rules without a width\<close>

lemma subtract_untracked: "subtractBounds Untracked (Obj b) = Inr Untracked"
  by (simp add: Untracked_def js_cmp_defs js_lt_NaN_right)

lemma size_untracked: "getBoundsSize Untracked = Inr (Fin 0)"
  by (simp add: Untracked_def getBoundsSize_Obj js_cmp_defs js_sub_def)

lemma js_round_zero: "js_round 0 = Fin 0"
  by (simp add: js_round_small)

lemma reduceQueries_untracked:
  "snd ` set names \<subseteq> fst ` set (queries opts) \<Longrightarrow>
   reduceQueries norm opts rule names (tr, Arr [Untracked])
     = Inr (tr @ events_of opts rule names, Arr [Untracked])"
proof (induction names arbitrary: tr)
  case Nil
  then show ?case by (simp add: events_of_def)
next
  case (Cons p names)
  obtain queryName query where p: "p = (queryName, query)" by (cases p)
  have "query \<in> fst ` set (queries opts)" using Cons.prems p by auto
  then obtain b where b: "lookupBounds (queriesBounds norm opts) query = Obj b"
    using getQueryBounds_Obj [of norm query] by (auto simp: lookupBounds_table)
  have names: "snd ` set names \<subseteq> fst ` set (queries opts)" using Cons.prems by auto
  have step: "subtractBounds (Arr [Untracked]) (Obj b) = Inr (Arr [Untracked])"
    by (simp add: subtract_untracked) (simp add: Untracked_def)
  show ?case
    using Cons.IH [OF names]
    by (simp add: p b step events_of_def addToStore_def Let_def del: subtractBounds.simps)
qed

lemma definition_names_in_table:
  "snd ` set (getQueryNamesByDefinition norm opts query) \<subseteq> fst ` set (queries opts)"
  by (force simp: getQueryNamesByDefinition_def)

text \<open>
  Claim C10. When the bounds of a rule are the untracked value, subtracting the bounds
  of any query leaves them unchanged and their size is 0. The list of query names of such
  a rule consists of the matches by definition only, the size of its remainder is 0, and
  the callback removes the rule exactly when that list is non-empty.
\<close>

theorem untracked_rule_removed:
  assumes "getQueryBounds norm (params rule) = Untracked"
  shows "subtractBounds Untracked (Obj b) = Inr Untracked \<and>
         getBoundsSize Untracked = Inr (Fin 0) \<and>
         queryNames norm opts rule = Inr (getQueryNamesByDefinition norm opts (params rule)) \<and>
         boundsRemainderSize norm opts rule (getQueryNamesByDefinition norm opts (params rule))
           = Inr (events_of opts rule (getQueryNamesByDefinition norm opts (params rule)), Fin 0) \<and>
         walkAtRule norm opts rule
           = Inr (events_of opts rule (getQueryNamesByDefinition norm opts (params rule)),
                  getQueryNamesByDefinition norm opts (params rule) \<noteq> [])"
proof -
  let ?names = "getQueryNamesByDefinition norm opts (params rule)"
  have never: "\<And>q. boundsIntersects Untracked (getQueryBounds norm q) \<noteq> Inr True"
  proof -
    fix q
    obtain c where "getQueryBounds norm q = Obj c" using getQueryBounds_Obj by blast
    then show "boundsIntersects Untracked (getQueryBounds norm q) \<noteq> Inr True"
      by (simp add: Untracked_def js_cmp_defs js_lt_NaN_right)
  qed
  have names: "queryNames norm opts rule = Inr ?names"
    by (simp add: queryNames_resolve resolve_spec_def assms never
        getQueryNamesByDefinition_def)
  have red: "reduceQueries norm opts rule ?names ([], Arr [Untracked])
             = Inr (events_of opts rule ?names, Arr [Untracked])"
    using reduceQueries_untracked [OF definition_names_in_table, where tr = "[]"]
    by simp
  have fl: "spread Untracked = [Untracked]"
    by (simp add: Untracked_def)
  have size: "boundsRemainderSize norm opts rule ?names = Inr (events_of opts rule ?names, Fin 0)"
    by (simp add: boundsRemainderSize_def assms red fl size_untracked js_round_zero)
  have "walkAtRule norm opts rule = Inr (events_of opts rule ?names, ?names \<noteq> [])"
    by (simp add: walkAtRule_def names size js_eq_def)
  with names size show ?thesis
    by (simp add: subtract_untracked size_untracked)
qed

theorem untracked_rule_removed_witness:
  "getQueryBounds (\<lambda>s. s) ''print'' = Untracked \<and>
   walkAtRule (\<lambda>s. s) ex_options \<lparr>params = ''print'', css = ''c''\<rparr>
     = Inr ([AddMedia ''layout-paper'' ''c'' ''dist'' ''print'', Subtract ''print''], True)"
proof -
  let ?r = "\<lparr>params = ''print'', css = ''c''\<rparr>"
  have u: "getQueryBounds (\<lambda>s. s) (params ?r) = Untracked"
    by code_simp
  have n: "getQueryNamesByDefinition (\<lambda>s. s) ex_options ''print'' = [(''paper'', ''print'')]"
    by code_simp
  have e: "events_of ex_options ?r [(''paper'', ''print'')]
           = [AddMedia ''layout-paper'' ''c'' ''dist'' ''print'', Subtract ''print'']"
    by code_simp
  show ?thesis
    using untracked_rule_removed [OF u, of undefined ex_options] u
    by (simp add: n e)
qed

end
